theory Spec2Isabelle
  imports Main "HOL-Library.Sublist"
begin

section \<open>Go values used by the RFC 7807 error handler\<close>

text \<open>
  A Go \<^verbatim>\<open>error\<close> is an interface value: \<^verbatim>\<open>nil\<close>, or a reference to an object
  with methods. Error objects live in a store indexed by addresses, so that two errors can
  refer to each other and a chain of causes can come back to where it started.
\<close>

type_synonym addr = nat

type_synonym error = "addr option"

text \<open>
  What \<^verbatim>\<open>goa.ServiceError\<close> adds to \<^verbatim>\<open>error\<close>: the methods
  \<^verbatim>\<open>ResponseStatus() int\<close> and \<^verbatim>\<open>Token() string\<close>.
\<close>

record service_error =
  ResponseStatus :: int
  Token :: string

text \<open>
  An error object, seen through the operations the handler applies to it:
  \<^item> \<open>Error\<close>: the result of \<^verbatim>\<open>e.Error()\<close>;
  \<^item> \<open>Format\<close>: the result of \<^verbatim>\<open>fmt.Sprintf("%+v", e)\<close>;
  \<^item> \<open>Cause\<close>: \<open>None\<close> when the dynamic type has no \<^verbatim>\<open>Cause() error\<close> method
    (the assertion \<^verbatim>\<open>e.(causer)\<close> fails), otherwise \<open>Some c\<close> with \<open>c\<close> the
    error that \<^verbatim>\<open>Cause()\<close> returns (\<open>c = None\<close> is \<^verbatim>\<open>nil\<close>);
  \<^item> \<open>ServiceError\<close>: \<open>None\<close> when the assertion \<^verbatim>\<open>cause.(goa.ServiceError)\<close>
    fails, otherwise the results of the two methods.
\<close>

record err_obj =
  Error :: string
  Format :: string
  Cause :: "error option"
  ServiceError :: "service_error option"

type_synonym store = "addr \<Rightarrow> err_obj"

text \<open>
  The struct \<^verbatim>\<open>Rfc7807Response\<close> of the source. \<^verbatim>\<open>Meta\<close>, which the handler
  neither reads nor writes, is kept as a list of pairs of strings.
\<close>

record Rfc7807Response =
  Type :: string
  Title :: string
  Status :: int
  Detail :: string
  Instance :: string
  TraceID :: string
  Meta :: "(string \<times> string) list"

text \<open>
  The struct \<^verbatim>\<open>goa.ErrorResponse\<close> of the imported package
  \<^verbatim>\<open>github.com/goadesign/goa\<close> (fields \<^verbatim>\<open>ID\<close>, \<^verbatim>\<open>Code\<close>, \<^verbatim>\<open>Status\<close>,
  \<^verbatim>\<open>Detail\<close>, \<^verbatim>\<open>Meta\<close>); the field names carry a prefix to keep them apart from those
  of \<open>Rfc7807Response\<close>.
\<close>

record ErrorResponse =
  goa_ID :: string
  goa_Code :: string
  goa_Status :: int
  goa_Detail :: string
  goa_Meta :: "(string \<times> string) list"

text \<open>
  \<^verbatim>\<open>respBody\<close> has type \<^verbatim>\<open>interface{}\<close>; the constructors are its dynamic types:
  the service error itself (line 55), a string (line 59), or what
  \<^verbatim>\<open>goa.ErrInternal\<close> returned (line 72), a pointer to one of the two structs.
\<close>

datatype body =
    ErrorBody addr
  | StringBody string
  | ErrorResponsePtr ErrorResponse
  | Rfc7807ResponsePtr Rfc7807Response

text \<open>
  The request context, as far as the handler reads and writes it: the value stored under
  the package's private key \<^verbatim>\<open>reqIDKey\<close> (\<open>None\<close> is \<^verbatim>\<open>nil\<close>; the values stored
  under it are strings), and the field \<^verbatim>\<open>ErrorCode\<close> of the response data that
  \<^verbatim>\<open>goa.ContextResponse(ctx)\<close> points to (goa attaches the response data to every
  context it hands to a handler).
\<close>

record Context =
  reqIDKey :: "string option"
  ErrorCode :: string

text \<open>One call of \<^verbatim>\<open>goa.LogError(ctx, tag, "err", _, "id", _, "msg", _)\<close>.\<close>

record log_record =
  log_tag :: string
  log_err :: string
  log_id :: string
  log_msg :: body

text \<open>
  Everything else the handler changes: the headers of the response writer, the records
  handed to the logger, and how often \<^verbatim>\<open>shortID()\<close> has been called.
\<close>

record world =
  header :: "string \<rightharpoonup> string"
  log :: "log_record list"
  shortID_calls :: nat

text \<open>
  What the handler needs from outside this file: \<^verbatim>\<open>shortID\<close> (declared elsewhere in the
  package; \<open>shortID env n\<close> is the string its call number \<open>n\<close> returns), and the function
  held by the variable \<^verbatim>\<open>goa.ErrInternal\<close>.
\<close>

record env =
  shortID :: "nat \<Rightarrow> string"
  ErrInternal :: "string \<Rightarrow> body"

text \<open>
  How a call of the handler ends: \<^verbatim>\<open>return nil\<close> on line 48, the call
  \<^verbatim>\<open>service.Send(ctx, status, respBody)\<close> on line 80 (whose result is returned), or
  a run-time panic of the type assertion on line 76.
\<close>

datatype outcome =
    ReturnNil
  | Send Context int body
  | Panic

section \<open>Constants\<close>

definition Rfc7807JsonMediaIdentifier :: string where
  "Rfc7807JsonMediaIdentifier = ''application/problem+json''"

definition Rfc7807XmlMediaIdentifier :: string where
  "Rfc7807XmlMediaIdentifier = ''application/problem+xml''"

definition StatusInternalServerError :: int where
  "StatusInternalServerError = 500"

text \<open>The value of \<^verbatim>\<open>http.StatusText(http.StatusInternalServerError)\<close>.\<close>

definition StatusText_InternalServerError :: string where
  "StatusText_InternalServerError = ''Internal Server Error''"

section \<open>The function \<^verbatim>\<open>cause\<close>\<close>

text \<open>
  The loop of lines 100 to 110. It has no bound on the number of rounds, so the function
  is partial: \<open>None\<close> means that the loop does not end.
\<close>

partial_function (option) cause :: "store \<Rightarrow> error \<Rightarrow> error option" where
  "cause st e =
     (case e of
        None \<Rightarrow> Some e
      | Some a \<Rightarrow>
          (case Cause (st a) of
             None \<Rightarrow> Some e
           | Some None \<Rightarrow> Some e
           | Some (Some c) \<Rightarrow> cause st (Some c)))"

text \<open>
  The chains on which the loop ends: \<open>unwinds st a t\<close> when following
  \<^verbatim>\<open>Cause()\<close> from \<open>a\<close> arrives, after finitely many steps, at the object \<open>t\<close> that
  has no \<^verbatim>\<open>Cause\<close> method or whose \<^verbatim>\<open>Cause()\<close> is \<^verbatim>\<open>nil\<close>.
\<close>

inductive unwinds :: "store \<Rightarrow> addr \<Rightarrow> addr \<Rightarrow> bool" for st :: store where
  no_causer: "Cause (st a) = None \<Longrightarrow> unwinds st a a"
| nil_cause: "Cause (st a) = Some None \<Longrightarrow> unwinds st a a"
| wrapped: "Cause (st a) = Some (Some c) \<Longrightarrow> unwinds st c t \<Longrightarrow> unwinds st a t"

code_pred unwinds .

section \<open>The handler\<close>

text \<open>
  The assertion \<^verbatim>\<open>cause.(goa.ServiceError)\<close> of line 53: it fails on \<^verbatim>\<open>nil\<close> and
  on an object without the two methods.
\<close>

definition as_ServiceError :: "store \<Rightarrow> error \<Rightarrow> (addr \<times> service_error) option" where
  "as_ServiceError st c =
     (case c of
        None \<Rightarrow> None
      | Some ca \<Rightarrow>
          (case ServiceError (st ca) of
             None \<Rightarrow> None
           | Some err \<Rightarrow> Some (ca, err)))"

text \<open>
  Lines 51 to 61: from the original error \<open>a\<close> and its cause \<open>c\<close> to the status, the
  body, the context (with \<^verbatim>\<open>ErrorCode\<close> written on line 56) and the headers.
\<close>

definition classify ::
  "store \<Rightarrow> addr \<Rightarrow> error \<Rightarrow> Context \<Rightarrow> world \<Rightarrow> int \<times> body \<times> Context \<times> world" where
  "classify st a c ctx w =
     (case as_ServiceError st c of
        Some (ca, err) \<Rightarrow>
          (ResponseStatus err, ErrorBody ca, ctx\<lparr>ErrorCode := Token err\<rparr>,
           w\<lparr>header := (header w)(''Content-Type'' \<mapsto> Rfc7807JsonMediaIdentifier)\<rparr>)
      | None \<Rightarrow>
          (StatusInternalServerError, StringBody (Error (st a)), ctx,
           w\<lparr>header := (header w)(''Content-Type'' \<mapsto> ''text/plain'')\<rparr>))"

text \<open>
  Lines 63 to 67: the identifier of the request, taken from the context or made by
  \<^verbatim>\<open>shortID()\<close> and stored in a context derived from the old one.
\<close>

definition request_id :: "env \<Rightarrow> Context \<Rightarrow> world \<Rightarrow> string \<times> Context \<times> world" where
  "request_id env ctx w =
     (case reqIDKey ctx of
        Some r \<Rightarrow> (r, ctx, w)
      | None \<Rightarrow>
          (let r = shortID env (shortID_calls w)
           in (r, ctx\<lparr>reqIDKey := Some r\<rparr>, w\<lparr>shortID_calls := Suc (shortID_calls w)\<rparr>)))"

text \<open>Line 71: \<^verbatim>\<open>fmt.Sprintf("%s [%s]", http.StatusText(500), reqID)\<close>.\<close>

definition internal_msg :: "string \<Rightarrow> string" where
  "internal_msg reqID = StatusText_InternalServerError @ '' ['' @ reqID @ '']''"

text \<open>
  Lines 71 to 77: the body that replaces the original one. \<open>None\<close> is the panic of the
  assertion \<^verbatim>\<open>respBody.(*Rfc7807Response)\<close>, which is only evaluated when
  \<^verbatim>\<open>ErrorCode\<close> is not empty.
\<close>

definition redact :: "env \<Rightarrow> string \<Rightarrow> Context \<Rightarrow> body option" where
  "redact env reqID ctx =
     (let respBody = ErrInternal env (internal_msg reqID)
      in if ErrorCode ctx \<noteq> ''''
         then (case respBody of
                 Rfc7807ResponsePtr r \<Rightarrow> Some (Rfc7807ResponsePtr (r\<lparr>TraceID := ErrorCode ctx\<rparr>))
               | _ \<Rightarrow> None)
         else Some respBody)"

text \<open>Lines 50 to 80, once \<^verbatim>\<open>cause(e)\<close> has returned \<open>c\<close>.\<close>

definition respond ::
  "env \<Rightarrow> bool \<Rightarrow> store \<Rightarrow> addr \<Rightarrow> error \<Rightarrow> Context \<Rightarrow> world \<Rightarrow> outcome \<times> world" where
  "respond env verbose st a c ctx w =
     (case classify st a c ctx w of
        (status, respBody, ctx1, w1) \<Rightarrow>
          if status = StatusInternalServerError
          then (case request_id env ctx1 w1 of
                  (reqID, ctx2, w2) \<Rightarrow>
                    (let w3 = w2\<lparr>log := log w2 @
                                [\<lparr>log_tag = ''uncaught error'', log_err = Format (st a),
                                  log_id = reqID, log_msg = respBody\<rparr>]\<rparr>
                     in if \<not> verbose
                        then (let w4 = w3\<lparr>header := (header w3)
                                         (''Content-Type'' \<mapsto> Rfc7807JsonMediaIdentifier)\<rparr>
                              in (case redact env reqID ctx2 of
                                    None \<Rightarrow> (Panic, w4)
                                  | Some b \<Rightarrow> (Send ctx2 status b, w4)))
                        else (Send ctx2 status respBody, w3)))
          else (Send ctx1 status respBody, w1))"

text \<open>
  The handler that \<^verbatim>\<open>Rfc7807Handler(service, verbose)(h)\<close> returns, from the point where
  \<^verbatim>\<open>h\<close> has returned \<open>e\<close> and left the world \<open>w\<close>. The result is \<open>None\<close> when
  \<^verbatim>\<open>cause(e)\<close> does not return.
\<close>

definition Rfc7807Handler ::
  "env \<Rightarrow> bool \<Rightarrow> store \<Rightarrow> error \<Rightarrow> Context \<Rightarrow> world \<Rightarrow> (outcome \<times> world) option" where
  "Rfc7807Handler env verbose st e ctx w =
     (case e of
        None \<Rightarrow> Some (ReturnNil, w)
      | Some a \<Rightarrow>
          (case cause st e of
             None \<Rightarrow> None
           | Some c \<Rightarrow> Some (respond env verbose st a c ctx w)))"

section \<open>Reading a result\<close>

text \<open>The status after line 61 and the \<^verbatim>\<open>ErrorCode\<close> of the context after line 61.\<close>

definition resolved_status :: "store \<Rightarrow> error \<Rightarrow> int" where
  "resolved_status st c =
     (case as_ServiceError st c of
        Some (ca, err) \<Rightarrow> ResponseStatus err
      | None \<Rightarrow> StatusInternalServerError)"

definition recorded_code :: "store \<Rightarrow> error \<Rightarrow> Context \<Rightarrow> string" where
  "recorded_code st c ctx =
     (case as_ServiceError st c of
        Some (ca, err) \<Rightarrow> Token err
      | None \<Rightarrow> ErrorCode ctx)"

text \<open>The identifier that lines 63 to 67 arrive at.\<close>

definition correlation_id :: "env \<Rightarrow> Context \<Rightarrow> world \<Rightarrow> string" where
  "correlation_id env ctx w =
     (case reqIDKey ctx of
        Some r \<Rightarrow> r
      | None \<Rightarrow> shortID env (shortID_calls w))"

text \<open>
  The fields of a body that a client reads: \<^verbatim>\<open>detail\<close> of either struct, and
  \<^verbatim>\<open>trace_id\<close>, which only \<open>Rfc7807Response\<close> has; and whether the dynamic
  type of a body is \<^verbatim>\<open>*Rfc7807Response\<close>.
\<close>

fun detail :: "body \<Rightarrow> string option" where
  "detail (Rfc7807ResponsePtr r) = Some (Detail r)"
| "detail (ErrorResponsePtr r) = Some (goa_Detail r)"
| "detail (ErrorBody a) = None"
| "detail (StringBody s) = None"

fun trace_id :: "body \<Rightarrow> string option" where
  "trace_id (Rfc7807ResponsePtr r) = Some (TraceID r)"
| "trace_id (ErrorResponsePtr r) = None"
| "trace_id (ErrorBody a) = None"
| "trace_id (StringBody s) = None"

fun is_Rfc7807Response :: "body \<Rightarrow> bool" where
  "is_Rfc7807Response (Rfc7807ResponsePtr r) = True"
| "is_Rfc7807Response (ErrorResponsePtr r) = False"
| "is_Rfc7807Response (ErrorBody a) = False"
| "is_Rfc7807Response (StringBody s) = False"

definition content_type :: "world \<Rightarrow> string option" where
  "content_type w = header w ''Content-Type''"

text \<open>
  What a call of the handler hands to \<^verbatim>\<open>Send\<close>, with the content type the headers
  have at that point, and the log it leaves.
\<close>

definition response :: "(outcome \<times> world) option \<Rightarrow> (int \<times> body \<times> string option) option" where
  "response r =
     (case r of
        Some (Send ctx s b, w) \<Rightarrow> Some (s, b, content_type w)
      | _ \<Rightarrow> None)"

definition emitted :: "(outcome \<times> world) option \<Rightarrow> log_record list" where
  "emitted r =
     (case r of
        Some (out, w) \<Rightarrow> log w
      | None \<Rightarrow> [])"

section \<open>Concrete errors and collaborators\<close>

text \<open>
  What \<^verbatim>\<open>goa.ErrInternal\<close> holds in package goa: the error class
  \<^verbatim>\<open>NewErrorClass("internal", 500)\<close>, which returns a pointer to a new
  \<^verbatim>\<open>goa.ErrorResponse\<close> with a new identifier and the message as detail. The first
  argument is the identifier it draws. (Package goa does not import this package, so no
  function written there can make a \<^verbatim>\<open>*Rfc7807Response\<close>.)
\<close>

definition goa_ErrInternal :: "string \<Rightarrow> string \<Rightarrow> body" where
  "goa_ErrInternal newErrorID message =
     ErrorResponsePtr \<lparr>goa_ID = newErrorID, goa_Code = ''internal'', goa_Status = 500,
                       goa_Detail = message, goa_Meta = []\<rparr>"

definition goa_env :: env where
  "goa_env = \<lparr>shortID = (\<lambda>n. ''rq'' @ replicate n CHR ''+''),
              ErrInternal = goa_ErrInternal ''Er7''\<rparr>"

text \<open>
  A variable \<^verbatim>\<open>goa.ErrInternal\<close> that has been given a function returning the struct
  of this package instead.
\<close>

definition problem_ErrInternal :: "string \<Rightarrow> string \<Rightarrow> body" where
  "problem_ErrInternal newErrorID message =
     Rfc7807ResponsePtr \<lparr>Type = '''', Title = ''internal'', Status = 500, Detail = message,
                         Instance = '''', TraceID = newErrorID, Meta = []\<rparr>"

definition problem_env :: env where
  "problem_env = \<lparr>shortID = (\<lambda>n. ''rq'' @ replicate n CHR ''+''),
                  ErrInternal = problem_ErrInternal ''Er7''\<rparr>"

text \<open>An error made by \<^verbatim>\<open>errors.New(m)\<close>.\<close>

definition plain :: "string \<Rightarrow> err_obj" where
  "plain m = \<lparr>Error = m, Format = m, Cause = None, ServiceError = None\<rparr>"

text \<open>
  A store of errors:
  \<^item> 0 wraps 1 with the message "failed to save"; 1 is the plain error "disk full";
  \<^item> 2 is a service error with status 404;
  \<^item> 3 is a service error with status 500 and a token, as \<^verbatim>\<open>goa.ErrInternal("boom")\<close>
    makes it; 4 wraps 3;
  \<^item> 5 is a plain error whose message is the reason phrase of status 500;
  \<^item> 7 and 8 name each other as their cause.
\<close>

definition example_store :: store where
  "example_store = (\<lambda>_. plain '''')
     (0 := \<lparr>Error = ''failed to save: disk full'',
            Format = ''disk full; failed to save; main.save /app/save.go:42'',
            Cause = Some (Some 1), ServiceError = None\<rparr>,
      1 := plain ''disk full'',
      2 := \<lparr>Error = ''[aB3] 404 not_found: no such item'',
            Format = ''[aB3] 404 not_found: no such item'',
            Cause = None,
            ServiceError = Some \<lparr>ResponseStatus = 404, Token = ''not_found''\<rparr>\<rparr>,
      3 := \<lparr>Error = ''[zQ7] 500 internal: boom'',
            Format = ''[zQ7] 500 internal: boom'',
            Cause = None,
            ServiceError = Some \<lparr>ResponseStatus = 500, Token = ''zQ7''\<rparr>\<rparr>,
      4 := \<lparr>Error = ''failed to save: [zQ7] 500 internal: boom'',
            Format = ''[zQ7] 500 internal: boom; failed to save; main.save /app/save.go:42'',
            Cause = Some (Some 3), ServiceError = None\<rparr>,
      5 := plain ''Internal Server Error'',
      7 := \<lparr>Error = ''ping'', Format = ''ping'', Cause = Some (Some 8), ServiceError = None\<rparr>,
      8 := \<lparr>Error = ''pong'', Format = ''pong'', Cause = Some (Some 7), ServiceError = None\<rparr>)"

text \<open>A context without identifier and error code, one with an identifier, a fresh world.\<close>

definition ctx_plain :: Context where
  "ctx_plain = \<lparr>reqIDKey = None, ErrorCode = ''''\<rparr>"

definition ctx_with_id :: Context where
  "ctx_with_id = \<lparr>reqIDKey = Some ''rq-77'', ErrorCode = ''''\<rparr>"

definition world0 :: world where
  "world0 = \<lparr>header = Map.empty, log = [], shortID_calls = 0\<rparr>"

section \<open>Facts about the model\<close>

lemmas handler_defs =
  respond_def classify_def as_ServiceError_def request_id_def redact_def
  resolved_status_def recorded_code_def correlation_id_def content_type_def

lemmas constant_defs =
  Rfc7807JsonMediaIdentifier_def StatusInternalServerError_def
  StatusText_InternalServerError_def internal_msg_def

lemmas example_defs =
  example_store_def plain_def goa_env_def problem_env_def goa_ErrInternal_def
  problem_ErrInternal_def ctx_plain_def ctx_with_id_def world0_def

text \<open>A chain that ends makes the loop return its last element.\<close>

lemma unwinds_cause: "unwinds st a t \<Longrightarrow> cause st (Some a) = Some (Some t)"
  by (induction rule: unwinds.induct) (simp_all add: cause.simps)

text \<open>
  Whenever the loop returns, the chain has ended: by induction on the rounds of the loop
  (the induction rule of the partial function), with one case for each way through its
  body.
\<close>

lemma cause_unwinds:
  assumes "cause st e = Some r"
  shows "case e of None \<Rightarrow> r = None | Some a \<Rightarrow> (\<exists>t. r = Some t \<and> unwinds st a t)"
proof (induction st e r rule: cause.raw_induct)
  case (1 loop st e r)
  show ?case
  proof (cases e)
    case None
    with 1(2) show ?thesis by simp
  next
    case (Some a)
    show ?thesis
    proof (cases "Cause (st a)")
      case None
      with Some 1(2) show ?thesis by (auto intro: unwinds.no_causer)
    next
      case outer: (Some c)
      show ?thesis
      proof (cases c)
        case None
        with Some outer 1(2) show ?thesis by (auto intro: unwinds.nil_cause)
      next
        case inner: (Some b)
        from Some outer inner 1(2) have "loop st (Some b) = Some r" by simp
        from 1(1) [OF this] obtain t where "r = Some t" "unwinds st b t" by auto
        with Some outer inner show ?thesis by (auto intro: unwinds.wrapped)
      qed
    qed
  qed
qed fact

lemma handler_resolved:
  "cause st (Some a) = Some c \<Longrightarrow>
   Rfc7807Handler env verbose st (Some a) ctx w = Some (respond env verbose st a c ctx w)"
  by (simp add: Rfc7807Handler_def)

text \<open>
  The status, the error code and the identifier as named in the section on reading a
  result are the ones the handler computes.
\<close>

lemma classify_reads:
  assumes "classify st a c ctx w = (status, respBody, ctx', w')"
  shows "status = resolved_status st c" and "ErrorCode ctx' = recorded_code st c ctx"
    and "reqIDKey ctx' = reqIDKey ctx" and "log w' = log w"
    and "shortID_calls w' = shortID_calls w"
  using assms by (auto simp: handler_defs split: option.splits)

lemma request_id_reads:
  assumes "request_id env ctx w = (reqID, ctx', w')"
  shows "reqID = correlation_id env ctx w" and "reqIDKey ctx' = Some reqID"
    and "ErrorCode ctx' = ErrorCode ctx"
  using assms by (auto simp: handler_defs Let_def split: option.splits)

text \<open>The causes in the store of examples.\<close>

lemma cause_example_0: "cause example_store (Some 0) = Some (Some 1)"
  by (simp add: cause.simps example_defs)


lemma cause_example_2: "cause example_store (Some 2) = Some (Some 2)"
  by (simp add: cause.simps example_defs)

lemma cause_example_3: "cause example_store (Some 3) = Some (Some 3)"
  by (simp add: cause.simps example_defs)

lemma cause_example_4: "cause example_store (Some 4) = Some (Some 3)"
  by (simp add: cause.simps example_defs)

lemma cause_example_5: "cause example_store (Some 5) = Some (Some 5)"
  by (simp add: cause.simps example_defs)

lemma no_unwinds_cycle: "unwinds example_store a t \<Longrightarrow> a = 7 \<or> a = 8 \<Longrightarrow> False"
  by (induction rule: unwinds.induct) (auto simp: example_defs)

text \<open>The statuses in the store of examples.\<close>

lemma resolved_example_1: "resolved_status example_store (Some 1) = StatusInternalServerError"
  by (simp add: example_defs handler_defs constant_defs)


lemma resolved_example_5: "resolved_status example_store (Some 5) = StatusInternalServerError"
  by (simp add: example_defs handler_defs constant_defs)

text \<open>The replacement body does not depend on the identifier stored in the context.\<close>

lemma redact_reqIDKey_update [simp]:
  "redact env reqID (ctx\<lparr>reqIDKey := x\<rparr>) = redact env reqID ctx"
  by (simp add: redact_def Let_def split: body.splits)

text \<open>
  When line 76 is reached with a body whose dynamic type is not
  \<^verbatim>\<open>*Rfc7807Response\<close>, the handler panics: in non-verbose mode, with status 500 and a
  non-empty \<^verbatim>\<open>ErrorCode\<close>.
\<close>

lemma assertion_fails:
  assumes "cause st (Some a) = Some c"
      and "resolved_status st c = StatusInternalServerError"
      and "recorded_code st c ctx \<noteq> ''''"
      and "\<not> is_Rfc7807Response (ErrInternal env (internal_msg (correlation_id env ctx w)))"
  shows "\<exists>w'. Rfc7807Handler env False st (Some a) ctx w = Some (Panic, w')"
  using assms
  by (cases "ErrInternal env (internal_msg (correlation_id env ctx w))")
     (auto simp: handler_resolved handler_defs Let_def split: option.splits prod.splits)

section \<open>Cause resolution\<close>

text \<open>
  C4, as amended. \<^verbatim>\<open>cause\<close> returns exactly on the errors whose chain of causes ends
  after finitely many steps, at an object without a \<^verbatim>\<open>Cause\<close> method or with a
  \<^verbatim>\<open>nil\<close> cause, and it returns that object. The loop has no bound and no cycle guard.
\<close>

theorem cause_returns_iff_unwinds:
  "cause st (Some a) = Some r \<longleftrightarrow> (\<exists>t. r = Some t \<and> unwinds st a t)"
proof
  assume "cause st (Some a) = Some r"
  from cause_unwinds [OF this] show "\<exists>t. r = Some t \<and> unwinds st a t" by simp
next
  assume "\<exists>t. r = Some t \<and> unwinds st a t"
  then show "cause st (Some a) = Some r" by (auto dest: unwinds_cause)
qed

text \<open>C4, witness: the wrapped error 0 of the examples unwinds to the plain error 1.\<close>

theorem cause_returns_iff_unwinds_witness:
  "unwinds example_store 0 1 \<and> cause example_store (Some 0) = Some (Some 1)"
proof -
  have "unwinds example_store 1 1"
    by (rule unwinds.no_causer) (simp add: example_defs)
  then have u: "unwinds example_store 0 1"
    by (rule unwinds.wrapped [rotated]) (simp add: example_defs)
  with cause_returns_iff_unwinds [of example_store 0 "Some 1"] show ?thesis by simp
qed

text \<open>
  C4, counterexample: on the two errors that name each other as their cause, the loop
  does not return.
\<close>

theorem cause_diverges_on_cycle: "cause example_store (Some 7) = None"
proof (cases "cause example_store (Some 7)")
  case None
  then show ?thesis .
next
  case (Some r)
  from cause_unwinds [OF Some] obtain t where "unwinds example_store 7 t" by auto
  from no_unwinds_cycle [OF this] show ?thesis by simp
qed

section \<open>Service errors with a status other than 500\<close>

text \<open>
  C7. When the cause of the error is a service error with a status other than 500, the
  handler, verbose or not, sends that status with the service error itself as the body and
  the content type \<^verbatim>\<open>application/problem+json\<close>; the log and the count of generated
  identifiers stay as they were. (Line 56 has stored the token in \<^verbatim>\<open>ErrorCode\<close>.)
\<close>

theorem structured_error_passed_through:
  assumes "cause st (Some a) = Some (Some c)"
      and "ServiceError (st c) = Some err"
      and "ResponseStatus err \<noteq> StatusInternalServerError"
  shows "Rfc7807Handler env verbose st (Some a) ctx w =
           Some (Send (ctx\<lparr>ErrorCode := Token err\<rparr>) (ResponseStatus err) (ErrorBody c),
                 w\<lparr>header := (header w)(''Content-Type'' \<mapsto> ''application/problem+json'')\<rparr>)"
  using assms by (simp add: handler_resolved handler_defs constant_defs)

text \<open>C7, witness: the service error with status 404, not verbose.\<close>

theorem structured_error_passed_through_witness:
  "cause example_store (Some 2) = Some (Some 2) \<and>
   Rfc7807Handler goa_env False example_store (Some 2) ctx_plain world0 =
     Some (Send \<lparr>reqIDKey = None, ErrorCode = ''not_found''\<rparr> 404 (ErrorBody 2),
           \<lparr>header = [''Content-Type'' \<mapsto> ''application/problem+json''], log = [],
             shortID_calls = 0\<rparr>)"
  using structured_error_passed_through
          [of example_store 2 2 "\<lparr>ResponseStatus = 404, Token = ''not_found''\<rparr>"
              goa_env False ctx_plain world0]
        cause_example_2
  by (simp add: example_defs constant_defs)

section \<open>The log record\<close>

text \<open>
  C6. Once the cause is resolved, the handler, verbose or not, adds to the log exactly one
  record when the status is 500 (the cause is no service error, or a service error with
  status 500): the record has the tag "uncaught error", the formatted original error, the
  identifier of the request and the body of lines 55 and 59, before any redaction. When
  the status is not 500 the log stays as it was.
\<close>

theorem uncaught_error_logged_once:
  assumes "cause st (Some a) = Some c"
  shows "\<exists>out w'. Rfc7807Handler env verbose st (Some a) ctx w = Some (out, w') \<and>
           log w' = log w @
             (if resolved_status st c = StatusInternalServerError
              then [\<lparr>log_tag = ''uncaught error'', log_err = Format (st a),
                     log_id = correlation_id env ctx w,
                     log_msg = (case as_ServiceError st c of
                                  Some (ca, err) \<Rightarrow> ErrorBody ca
                                | None \<Rightarrow> StringBody (Error (st a)))\<rparr>]
              else [])"
  using assms
  by (auto simp: handler_resolved handler_defs Let_def split: option.splits prod.splits)

text \<open>C6, witness: the wrapped plain error, not verbose.\<close>

theorem uncaught_error_logged_once_witness:
  "cause example_store (Some 0) = Some (Some 1) \<and>
   (\<exists>out w'. Rfc7807Handler goa_env False example_store (Some 0) ctx_plain world0 =
                Some (out, w') \<and>
      log w' = [\<lparr>log_tag = ''uncaught error'',
                  log_err = ''disk full; failed to save; main.save /app/save.go:42'',
                  log_id = ''rq'',
                  log_msg = StringBody ''failed to save: disk full''\<rparr>])"
  using uncaught_error_logged_once
          [of example_store 0 "Some 1" goa_env False ctx_plain world0]
        cause_example_0
  by (simp add: example_defs handler_defs constant_defs)

section \<open>Verbose mode\<close>

text \<open>
  C8. In verbose mode, when the status is 500, the body and the content type of lines 53
  to 61 are what is sent: the service error itself with
  \<^verbatim>\<open>application/problem+json\<close>, or the message of the original error with
  \<^verbatim>\<open>text/plain\<close>.
\<close>

theorem verbose_500_unmodified:
  assumes "cause st (Some a) = Some (Some c)"
      and "resolved_status st (Some c) = StatusInternalServerError"
  shows "\<exists>ctx' w' ctx1 w1 b.
           classify st a (Some c) ctx w = (StatusInternalServerError, b, ctx1, w1) \<and>
           Rfc7807Handler env True st (Some a) ctx w =
             Some (Send ctx' StatusInternalServerError b, w') \<and>
           content_type w' = content_type w1 \<and>
           (b, content_type w') =
             (case ServiceError (st c) of
                None \<Rightarrow> (StringBody (Error (st a)), Some ''text/plain'')
              | Some err \<Rightarrow> (ErrorBody c, Some ''application/problem+json''))"
  using assms
  by (auto simp: handler_resolved handler_defs constant_defs Let_def
           split: option.splits prod.splits)

text \<open>C8, witness: the service error with status 500 inside a wrapper, verbose.\<close>

theorem verbose_500_unmodified_witness:
  "cause example_store (Some 4) = Some (Some 3) \<and>
   resolved_status example_store (Some 3) = StatusInternalServerError \<and>
   (\<exists>ctx' w'. Rfc7807Handler goa_env True example_store (Some 4) ctx_plain world0 =
                 Some (Send ctx' StatusInternalServerError (ErrorBody 3), w') \<and>
      content_type w' = Some ''application/problem+json'')"
proof -
  have h: "resolved_status example_store (Some 3) = StatusInternalServerError"
    by (simp add: example_defs handler_defs constant_defs)
  from verbose_500_unmodified
         [OF cause_example_4 h, where env = goa_env and ctx = ctx_plain and w = world0]
  show ?thesis using cause_example_4 h
    by (auto simp: example_defs)
qed

section \<open>The identifier of the request\<close>

text \<open>
  C10. \<^verbatim>\<open>shortID()\<close> is called once when the status is 500 and the context carries no
  identifier, and not at all otherwise. With status 500 the identifier in the log record
  and in the context given to \<^verbatim>\<open>Send\<close> is the one the context carried, or else the
  one just generated.
\<close>

theorem correlation_id_lazy:
  assumes "cause st (Some a) = Some c"
  shows "\<exists>out w'. Rfc7807Handler env verbose st (Some a) ctx w = Some (out, w') \<and>
           shortID_calls w' = shortID_calls w +
             (if resolved_status st c = StatusInternalServerError \<and> reqIDKey ctx = None
              then 1 else 0) \<and>
           (resolved_status st c = StatusInternalServerError \<longrightarrow>
              map log_id (log w') = map log_id (log w) @ [correlation_id env ctx w] \<and>
              (\<forall>ctx' s b. out = Send ctx' s b \<longrightarrow>
                 reqIDKey ctx' = Some (correlation_id env ctx w)))"
  using assms
  by (auto simp: handler_resolved handler_defs Let_def split: option.splits prod.splits)

text \<open>C10, witness: a context without identifier, status 500: one call.\<close>

theorem correlation_id_lazy_witness:
  "cause example_store (Some 0) = Some (Some 1) \<and>
   resolved_status example_store (Some 1) = StatusInternalServerError \<and>
   reqIDKey ctx_plain = None \<and>
   (\<exists>out w'. Rfc7807Handler goa_env False example_store (Some 0) ctx_plain world0 =
                Some (out, w') \<and>
      shortID_calls w' = 1 \<and> map log_id (log w') = [''rq''] \<and>
      (\<forall>ctx' s b. out = Send ctx' s b \<longrightarrow> reqIDKey ctx' = Some ''rq''))"
proof -
  have h: "resolved_status example_store (Some 1) = StatusInternalServerError"
    by (simp add: example_defs handler_defs constant_defs)
  from correlation_id_lazy [OF cause_example_0, of goa_env False ctx_plain world0]
  show ?thesis using cause_example_0 h
    by (simp add: example_defs correlation_id_def)
qed

section \<open>The type assertion of line 76\<close>

text \<open>
  C1, at a failing input. The wrapped handler returns the error
  \<^verbatim>\<open>goa.ErrInternal("boom")\<close> (a service error with status 500 and a non-empty token),
  verbose is false, and \<^verbatim>\<open>goa.ErrInternal\<close> is the function of package goa. The log
  record is written and the header set, then the assertion
  \<^verbatim>\<open>respBody.(*Rfc7807Response)\<close> is evaluated on a \<^verbatim>\<open>*goa.ErrorResponse\<close>: the
  handler panics and nothing is handed to \<^verbatim>\<open>Send\<close>.
\<close>

theorem handler_panics_on_internal_service_error:
  "Rfc7807Handler goa_env False example_store (Some 3) ctx_plain world0 =
     Some (Panic,
           \<lparr>header = [''Content-Type'' \<mapsto> ''application/problem+json''],
             log = [\<lparr>log_tag = ''uncaught error'', log_err = ''[zQ7] 500 internal: boom'',
                     log_id = ''rq'', log_msg = ErrorBody 3\<rparr>],
             shortID_calls = 1\<rparr>)"
  by (subst handler_resolved [OF cause_example_3])
     (simp add: handler_defs constant_defs example_defs Let_def)

section \<open>Redaction\<close>

text \<open>
  C2, as amended. In non-verbose mode with status 500, when a response is sent (the
  recorded error code is empty, or the body made by \<^verbatim>\<open>goa.ErrInternal\<close> is a
  \<^verbatim>\<open>*Rfc7807Response\<close>) and \<^verbatim>\<open>goa.ErrInternal\<close> stores its message as the detail:
  exactly one record is logged, and its identifier is the one between the brackets of
  the detail sent to the client and the one in the context given to \<^verbatim>\<open>Send\<close>. The
  \<^verbatim>\<open>trace_id\<close> is not that identifier: it is the recorded error code when there is
  one, and otherwise what \<^verbatim>\<open>goa.ErrInternal\<close> made it.
\<close>

theorem redacted_detail_carries_log_id:
  assumes "cause st (Some a) = Some c"
      and "resolved_status st c = StatusInternalServerError"
      and "recorded_code st c ctx = '''' \<or>
           is_Rfc7807Response (ErrInternal env (internal_msg (correlation_id env ctx w)))"
      and "detail (ErrInternal env (internal_msg (correlation_id env ctx w))) =
             Some (internal_msg (correlation_id env ctx w))"
  shows "\<exists>ctx' b w' r.
           Rfc7807Handler env False st (Some a) ctx w =
             Some (Send ctx' StatusInternalServerError b, w') \<and>
           log w' = log w @ [r] \<and>
           reqIDKey ctx' = Some (log_id r) \<and>
           detail b = Some (StatusText_InternalServerError @ '' ['' @ log_id r @ '']'') \<and>
           trace_id b =
             (if recorded_code st c ctx = ''''
              then trace_id (ErrInternal env (internal_msg (log_id r)))
              else Some (recorded_code st c ctx))"
  using assms
  by (cases "ErrInternal env (internal_msg (correlation_id env ctx w))")
     (auto simp: handler_resolved handler_defs internal_msg_def Let_def
           split: option.splits prod.splits)

text \<open>C2, witness: the wrapped plain error, a context without identifier.\<close>

theorem redacted_detail_carries_log_id_witness:
  "cause example_store (Some 0) = Some (Some 1) \<and>
   resolved_status example_store (Some 1) = StatusInternalServerError \<and>
   recorded_code example_store (Some 1) ctx_plain = '''' \<and>
   (\<exists>ctx' b w' r.
      Rfc7807Handler goa_env False example_store (Some 0) ctx_plain world0 =
        Some (Send ctx' StatusInternalServerError b, w') \<and>
      log w' = [r] \<and> log_id r = ''rq'' \<and> reqIDKey ctx' = Some ''rq'' \<and>
      detail b = Some ''Internal Server Error [rq]'')"
proof -
  have code: "recorded_code example_store (Some 1) ctx_plain = ''''"
    by (simp add: example_defs handler_defs)
  have det: "detail (ErrInternal goa_env (internal_msg (correlation_id goa_env ctx_plain world0))) =
               Some (internal_msg (correlation_id goa_env ctx_plain world0))"
    by (simp add: example_defs)
  from redacted_detail_carries_log_id
         [OF cause_example_0 resolved_example_1 disjI1 [OF code] det]
  obtain ctx' b w' r where
    run: "Rfc7807Handler goa_env False example_store (Some 0) ctx_plain world0 =
            Some (Send ctx' StatusInternalServerError b, w')"
    and rest: "log w' = log world0 @ [r]" "reqIDKey ctx' = Some (log_id r)"
      "detail b = Some (StatusText_InternalServerError @ '' ['' @ log_id r @ '']'')"
    by blast
  have "respond goa_env False example_store 0 (Some 1) ctx_plain world0 =
          (Send ctx' StatusInternalServerError b, w')"
    using run by (simp add: handler_resolved [OF cause_example_0])
  then have "log_id r = ''rq''"
    using rest(1) by (auto simp: handler_defs constant_defs example_defs Let_def)
  with run rest cause_example_0 resolved_example_1 code show ?thesis
    by (auto simp: world0_def constant_defs)
qed

text \<open>
  C2, counterexample: the wrapped plain error, not verbose. The log record has the
  identifier "rq"; the body sent is the \<^verbatim>\<open>goa.ErrorResponse\<close> that
  \<^verbatim>\<open>goa.ErrInternal\<close> made, which has no \<^verbatim>\<open>trace_id\<close>, and whose own identifier is
  the one drawn for it, "Er7".
\<close>

theorem trace_id_differs_from_log_id:
  "response (Rfc7807Handler goa_env False example_store (Some 0) ctx_plain world0) =
     Some (500,
           ErrorResponsePtr \<lparr>goa_ID = ''Er7'', goa_Code = ''internal'', goa_Status = 500,
                             goa_Detail = ''Internal Server Error [rq]'', goa_Meta = []\<rparr>,
           Some ''application/problem+json'') \<and>
   map log_id (emitted (Rfc7807Handler goa_env False example_store (Some 0) ctx_plain world0)) =
     [''rq''] \<and>
   trace_id (ErrorResponsePtr \<lparr>goa_ID = ''Er7'', goa_Code = ''internal'', goa_Status = 500,
                               goa_Detail = ''Internal Server Error [rq]'', goa_Meta = []\<rparr>) \<noteq>
     Some ''rq'' \<and>
   ''Er7'' \<noteq> ''rq''"
  by (subst (1 2) handler_resolved [OF cause_example_0])
     (simp add: response_def emitted_def handler_defs constant_defs example_defs Let_def)

text \<open>
  The same with a \<^verbatim>\<open>goa.ErrInternal\<close> that returns a \<^verbatim>\<open>*Rfc7807Response\<close>, on the
  service error with status 500: line 76 sets \<^verbatim>\<open>trace_id\<close> to the token "zQ7" of the
  error, and the log record has the identifier "rq".
\<close>

lemma trace_id_is_token_not_log_id:
  "response (Rfc7807Handler problem_env False example_store (Some 3) ctx_plain world0) =
     Some (500,
           Rfc7807ResponsePtr \<lparr>Type = '''', Title = ''internal'', Status = 500,
                               Detail = ''Internal Server Error [rq]'', Instance = '''',
                               TraceID = ''zQ7'', Meta = []\<rparr>,
           Some ''application/problem+json'') \<and>
   map log_id (emitted (Rfc7807Handler problem_env False example_store (Some 3) ctx_plain world0)) =
     [''rq'']"
  by (subst (1 2) handler_resolved [OF cause_example_3])
     (simp add: response_def emitted_def handler_defs constant_defs example_defs Let_def)




text \<open>
  C5, as amended. In non-verbose mode with status 500, when a response is sent and
  \<^verbatim>\<open>goa.ErrInternal\<close> stores its message as the detail: the detail is exactly the
  reason phrase of status 500, a space, and the identifier of the request in brackets,
  and the content type is \<^verbatim>\<open>application/problem+json\<close>. The detail is made from these
  two strings alone; the message of the original error is not used to make it.
\<close>

theorem redacted_detail_form:
  assumes "cause st (Some a) = Some c"
      and "resolved_status st c = StatusInternalServerError"
      and "recorded_code st c ctx = '''' \<or>
           is_Rfc7807Response (ErrInternal env (internal_msg (correlation_id env ctx w)))"
      and "detail (ErrInternal env (internal_msg (correlation_id env ctx w))) =
             Some (internal_msg (correlation_id env ctx w))"
  shows "\<exists>ctx' b w'.
           Rfc7807Handler env False st (Some a) ctx w =
             Some (Send ctx' StatusInternalServerError b, w') \<and>
           detail b =
             Some (''Internal Server Error'' @ '' ['' @ correlation_id env ctx w @ '']'') \<and>
           content_type w' = Some ''application/problem+json''"
  using assms
  by (cases "ErrInternal env (internal_msg (correlation_id env ctx w))")
     (auto simp: handler_resolved handler_defs constant_defs Let_def
           split: option.splits prod.splits)

text \<open>C5, witness: a plain error and a context with the identifier "rq-77".\<close>

theorem redacted_detail_form_witness:
  "cause example_store (Some 5) = Some (Some 5) \<and>
   resolved_status example_store (Some 5) = StatusInternalServerError \<and>
   recorded_code example_store (Some 5) ctx_with_id = '''' \<and>
   (\<exists>ctx' b w'.
      Rfc7807Handler goa_env False example_store (Some 5) ctx_with_id world0 =
        Some (Send ctx' StatusInternalServerError b, w') \<and>
      detail b = Some ''Internal Server Error [rq-77]'' \<and>
      content_type w' = Some ''application/problem+json'')"
proof -
  have code: "recorded_code example_store (Some 5) ctx_with_id = ''''"
    by (simp add: example_defs handler_defs)
  have det: "detail (ErrInternal goa_env (internal_msg (correlation_id goa_env ctx_with_id world0))) =
               Some (internal_msg (correlation_id goa_env ctx_with_id world0))"
    by (simp add: example_defs)
  from redacted_detail_form [OF cause_example_5 resolved_example_5 disjI1 [OF code] det]
  show ?thesis using cause_example_5 resolved_example_5 code
    by (simp add: correlation_id_def ctx_with_id_def)
qed

text \<open>
  C5, counterexample: the plain error whose message is "Internal Server Error", not
  verbose. The detail sent starts with that very message.
\<close>

theorem redacted_detail_contains_message:
  "response (Rfc7807Handler goa_env False example_store (Some 5) ctx_plain world0) =
     Some (500,
           ErrorResponsePtr \<lparr>goa_ID = ''Er7'', goa_Code = ''internal'', goa_Status = 500,
                             goa_Detail = ''Internal Server Error [rq]'', goa_Meta = []\<rparr>,
           Some ''application/problem+json'') \<and>
   Error (example_store 5) = ''Internal Server Error'' \<and>
   sublist (Error (example_store 5)) ''Internal Server Error [rq]''"
proof -
  have "''Internal Server Error [rq]'' = [] @ ''Internal Server Error'' @ '' [rq]''"
    by simp
  then have "sublist ''Internal Server Error'' ''Internal Server Error [rq]''"
    by (simp only: sublist_appendI)
  moreover have "Error (example_store 5) = ''Internal Server Error''"
    by (simp add: example_defs)
  moreover have
    "response (Rfc7807Handler goa_env False example_store (Some 5) ctx_plain world0) =
       Some (500,
             ErrorResponsePtr \<lparr>goa_ID = ''Er7'', goa_Code = ''internal'', goa_Status = 500,
                               goa_Detail = ''Internal Server Error [rq]'', goa_Meta = []\<rparr>,
             Some ''application/problem+json'')"
    by (subst handler_resolved [OF cause_example_5])
       (simp add: response_def handler_defs constant_defs example_defs Let_def)
  ultimately show ?thesis by simp
qed

section \<open>Wrapped errors\<close>




end
